theory Spec2Isabelle
  imports Complex_Main "HOL-Library.Sublist" "HOL-Library.AList"
begin

section \<open>Conventions of the embedding\<close>

text \<open>
  The development embeds the expiring cache (\<^verbatim>\<open>services/cache_service.py\<close>), the
  travel data model (\<^verbatim>\<open>models/travel.py\<close>) and the itinerary generation pipeline
  (\<^verbatim>\<open>services/llm_service.py\<close>) of the travel planner.

  \<^item> A Python \<^verbatim>\<open>str\<close> is a \<open>string\<close>; the characters are the code points below 256.
  \<^item> A Python \<^verbatim>\<open>float\<close> (time stamps, budget, cost) is a \<open>real\<close>: rounding to binary
    floating point is not part of the model.
  \<^item> A \<^verbatim>\<open>datetime.date\<close> is its proleptic ordinal, an \<open>int\<close>; the difference of two
    dates in days is the difference of the ordinals.
  \<^item> A raised exception is the \<open>Inl\<close> branch of a result \<open>py_error + 'a\<close>.
  \<^item> The dictionary of the cache is an association list in insertion order.
\<close>

datatype py_error =
    HTTPException nat string
  | IndexError
  | ValueError
  | AttributeError
  | APIError string

section \<open>Travel data model\<close>

type_synonym date = int

record travel_request =
  origin :: string
  destination :: string
  depart_date :: date
  return_date :: date
  budget :: real
  preferences :: "string list"

text \<open>\<^verbatim>\<open>max(1, (self.return_date - self.depart_date).days + 1)\<close>\<close>

definition duration :: "travel_request \<Rightarrow> int" where
  "duration r = max 1 (return_date r - depart_date r + 1)"

section \<open>Expiring cache\<close>

record cache_entry =
  entry_value :: string
  expires_at :: real

type_synonym cache = "(string \<times> cache_entry) list"

text \<open>
  The JSON library is a parameter of the cache. \<open>dumps\<close> is \<^verbatim>\<open>json.dumps(value)\<close>,
  \<open>dumps_default\<close> is \<^verbatim>\<open>json.dumps(value, default=...)\<close>; both give \<open>None\<close> when the
  call raises. \<open>dumps_str\<close> is \<^verbatim>\<open>json.dumps\<close> of a string, \<open>py_str\<close> is \<^verbatim>\<open>str(value)\<close>,
  \<open>structured\<close> is the test
  \<^verbatim>\<open>hasattr(value, '__dict__') or isinstance(value, (list, dict))\<close>, \<open>loads\<close> is
  \<^verbatim>\<open>json.loads\<close> (\<open>None\<close> when it raises) and \<open>str_value\<close> injects a string into the
  values that \<^verbatim>\<open>json.loads\<close> returns.
\<close>

record ('v, 'j) json_lib =
  structured :: "'v \<Rightarrow> bool"
  dumps :: "'v \<Rightarrow> string option"
  dumps_default :: "'v \<Rightarrow> string option"
  dumps_str :: "string \<Rightarrow> string"
  py_str :: "'v \<Rightarrow> string"
  loads :: "string \<Rightarrow> 'j option"
  str_value :: "string \<Rightarrow> 'j"

definition serialize :: "('v, 'j) json_lib \<Rightarrow> 'v \<Rightarrow> string" where
  "serialize lib v =
     (case (if structured lib v then dumps_default lib v else dumps lib v) of
        Some s \<Rightarrow> s
      | None \<Rightarrow> dumps_str lib (py_str lib v))"

definition deserialize :: "('v, 'j) json_lib \<Rightarrow> string \<Rightarrow> 'j" where
  "deserialize lib s = (case loads lib s of Some j \<Rightarrow> j | None \<Rightarrow> str_value lib s)"

text \<open>\<^verbatim>\<open>get\<close>: the time read by \<^verbatim>\<open>time.time()\<close> is the argument \<open>now\<close>; the result is the
  returned value and the cache after the call.\<close>

definition cache_get :: "('v, 'j) json_lib \<Rightarrow> cache \<Rightarrow> string \<Rightarrow> real \<Rightarrow> 'j option \<times> cache" where
  "cache_get lib c key now =
     (case map_of c key of
        None \<Rightarrow> (None, c)
      | Some entry \<Rightarrow>
          if expires_at entry \<le> now then (None, AList.delete key c)
          else (Some (deserialize lib (entry_value entry)), c))"

definition cache_set :: "('v, 'j) json_lib \<Rightarrow> cache \<Rightarrow> string \<Rightarrow> 'v \<Rightarrow> int \<Rightarrow> real \<Rightarrow> cache" where
  "cache_set lib c key v expiry now =
     (let expires = now + real_of_int expiry;
          serialized_value = serialize lib v
      in AList.update key \<lparr>entry_value = serialized_value, expires_at = expires\<rparr> c)"

definition cache_delete :: "cache \<Rightarrow> string \<Rightarrow> cache" where
  "cache_delete c key = (if key \<in> fst ` set c then AList.delete key c else c)"

definition cache_clear :: "cache \<Rightarrow> cache" where
  "cache_clear c = []"

text \<open>\<^verbatim>\<open>_cleanup_expired\<close>: a first loop collects the expired keys, a second one deletes
  them.\<close>

definition keys_to_remove :: "cache \<Rightarrow> real \<Rightarrow> string list" where
  "keys_to_remove c current_time =
     map fst (filter (\<lambda>(key, entry). expires_at entry \<le> current_time) c)"

definition cleanup_expired :: "cache \<Rightarrow> real \<Rightarrow> cache" where
  "cleanup_expired c current_time =
     fold (\<lambda>key acc. AList.delete key acc) (keys_to_remove c current_time) c"

section \<open>Duration of a request\<close>

text \<open>
  Claim C8. The duration of every request is \<open>max 1 (return - depart + 1)\<close> and hence at
  least one day; when the departure is not after the return it is the number of days
  from the one to the other, both counted, and equal dates give a duration of one day.
\<close>

theorem duration_invariant:
  "duration r = max 1 (return_date r - depart_date r + 1)
   \<and> 1 \<le> duration r
   \<and> (depart_date r \<le> return_date r \<longrightarrow> duration r = return_date r - depart_date r + 1)
   \<and> (depart_date r = return_date r \<longrightarrow> duration r = 1)"
  by (simp add: duration_def)

theorem duration_invariant_witness:
  "duration \<lparr>origin = ''SIN'', destination = ''NRT'', depart_date = 739000,
      return_date = 739002, budget = 2000, preferences = []\<rparr> = 3
   \<and> duration \<lparr>origin = ''SIN'', destination = ''NRT'', depart_date = 739000,
      return_date = 739000, budget = 2000, preferences = []\<rparr> = 1"
  using duration_invariant [of "\<lparr>origin = ''SIN'', destination = ''NRT'', depart_date = 739000,
      return_date = 739002, budget = 2000, preferences = []\<rparr>"]
    duration_invariant [of "\<lparr>origin = ''SIN'', destination = ''NRT'', depart_date = 739000,
      return_date = 739000, budget = 2000, preferences = []\<rparr>"]
  by simp

end
